theory Spec2Isabelle
  imports Complex_Main
begin

section \<open>JavaScript values\<close>

text \<open>
  The values that cross the functions of \<^verbatim>\<open>src/main/api/index.js\<close>: JSON data
  returned by the vendor API, and the built-in members every ordinary object inherits.
  Numbers that occur in the modelled paths (ids, response codes, bit rates, ports, file
  sizes) are integers; \<open>JBuiltin\<close> stands for a built-in function or object, named by
  its path in the language (\<open>Object.prototype.toString\<close>, ...).
\<close>

datatype jsval =
    JUndefined
  | JNull
  | JBool bool
  | JNum int
  | JStr string
  | JBuiltin string
  | JArr "jsval list"
  | JObj "(string \<times> jsval) list"

text \<open>What an \<^verbatim>\<open>if (v)\<close> or \<^verbatim>\<open>!v\<close> sees of a value.\<close>

fun truthy :: "jsval \<Rightarrow> bool" where
  "truthy JUndefined = False"
| "truthy JNull = False"
| "truthy (JBool b) = b"
| "truthy (JNum n) = (n \<noteq> 0)"
| "truthy (JStr s) = (s \<noteq> [])"
| "truthy (JBuiltin f) = True"
| "truthy (JArr vs) = True"
| "truthy (JObj ps) = True"

text \<open>
  The members of \<open>Object.prototype\<close>, which an object literal and an object made by
  \<open>JSON.parse\<close> inherit: a property that is not the object's own is looked up here.
\<close>

definition object_prototype :: "(string \<times> jsval) list" where
  "object_prototype =
     [(''constructor'', JBuiltin ''Object''),
      (''__proto__'', JBuiltin ''Object.prototype''),
      (''hasOwnProperty'', JBuiltin ''Object.prototype.hasOwnProperty''),
      (''isPrototypeOf'', JBuiltin ''Object.prototype.isPrototypeOf''),
      (''propertyIsEnumerable'', JBuiltin ''Object.prototype.propertyIsEnumerable''),
      (''toLocaleString'', JBuiltin ''Object.prototype.toLocaleString''),
      (''toString'', JBuiltin ''Object.prototype.toString''),
      (''valueOf'', JBuiltin ''Object.prototype.valueOf''),
      (''__defineGetter__'', JBuiltin ''Object.prototype.__defineGetter__''),
      (''__defineSetter__'', JBuiltin ''Object.prototype.__defineSetter__''),
      (''__lookupGetter__'', JBuiltin ''Object.prototype.__lookupGetter__''),
      (''__lookupSetter__'', JBuiltin ''Object.prototype.__lookupSetter__'')]"

text \<open>\<^verbatim>\<open>obj[key]\<close> on an ordinary object given by its own properties.\<close>

definition get_member :: "(string \<times> jsval) list \<Rightarrow> string \<Rightarrow> jsval" where
  "get_member own key =
     (case map_of own key of
        Some v \<Rightarrow> v
      | None \<Rightarrow> (case map_of object_prototype key of Some v \<Rightarrow> v | None \<Rightarrow> JUndefined))"

datatype js_error =
    TypeError string
  | Error string
  | TransportError string

text \<open>
  \<^verbatim>\<open>v.key\<close> on any value: reading a property of \<open>undefined\<close> or \<open>null\<close> throws a
  TypeError; the primitive values of this model have no property of that name. The
  string of a TypeError tells which read failed; the engine's own wording is not modelled.
\<close>

fun get_prop :: "jsval \<Rightarrow> string \<Rightarrow> js_error + jsval" where
  "get_prop JUndefined key = Inl (TypeError (''Cannot read property of undefined: '' @ key))"
| "get_prop JNull key = Inl (TypeError (''Cannot read property of null: '' @ key))"
| "get_prop (JObj own) key = Inr (get_member own key)"
| "get_prop v key = Inr JUndefined"

subsection \<open>Decimal rendering of numbers\<close>

text \<open>\<^verbatim>\<open>'' + n\<close> and \<^verbatim>\<open>n.toString()\<close> for an integer \<open>n\<close>.\<close>

definition digit_char :: "nat \<Rightarrow> char" where
  "digit_char d = ''0123456789'' ! d"

function dec_nat :: "nat \<Rightarrow> string" where
  "dec_nat n = (if n < 10 then [digit_char n] else dec_nat (n div 10) @ [digit_char (n mod 10)])"
  by pat_completeness auto
termination
  by (relation "measure (\<lambda>n. n)") auto

declare dec_nat.simps [simp del]

definition dec_int :: "int \<Rightarrow> string" where
  "dec_int i = (if i < 0 then CHR ''-'' # dec_nat (nat (- i)) else dec_nat (nat i))"

section \<open>The protocol client and its cookie set\<close>

text \<open>
  \<^verbatim>\<open>const client = new Client()\<close>: the client's class is in \<^verbatim>\<open>./httpClient\<close>. Its
  state, as far as the functions of this file touch it, is the cookie set; \<open>calls\<close>
  records the client's methods in the order they were called.
\<close>

datatype client_call =
    PostW string jsval
  | PostE string jsval
  | PostL string jsval
  | UpdateCookie "(string \<rightharpoonup> string) option"

record client =
  cookies :: "string \<rightharpoonup> string"
  calls :: "client_call list"

text \<open>
  Modelled from the spec: \<open>client.updateCookie\<close> of \<^verbatim>\<open>./httpClient\<close>, which is not
  among the sources. The spec: "replaces the entire cookie set; passing nothing clears it";
  the comment above \<open>updateCookie\<close> in \<^verbatim>\<open>index.js\<close>: "clear all cookies, and set
  cookie as given arguments".
\<close>

definition client_updateCookie :: "(string \<rightharpoonup> string) option \<Rightarrow> client \<Rightarrow> client" where
  "client_updateCookie cookie c =
     c\<lparr>cookies := (case cookie of None \<Rightarrow> Map.empty | Some m \<Rightarrow> m),
       calls := calls c @ [UpdateCookie cookie]\<rparr>"

text \<open>\<^verbatim>\<open>export function updateCookie(cookie) { client.updateCookie(cookie); }\<close>\<close>

definition updateCookie :: "(string \<rightharpoonup> string) option \<Rightarrow> client \<Rightarrow> client" where
  "updateCookie cookie c = client_updateCookie cookie c"

text \<open>
  One exchange with the vendor: given the path, the request body (\<open>JUndefined\<close> when
  the call passes none) and the cookies sent, the network answers with an error (the
  promise rejects) or with the decoded JSON and the cookie set after the response's
  \<open>Set-Cookie\<close> headers were merged. The exchange is a parameter of the model.
\<close>

type_synonym exchange =
  "string \<Rightarrow> jsval \<Rightarrow> (string \<rightharpoonup> string) \<Rightarrow> js_error + (jsval \<times> (string \<rightharpoonup> string))"

definition client_postW ::
  "exchange \<Rightarrow> string \<Rightarrow> jsval \<Rightarrow> client \<Rightarrow> (js_error + jsval) \<times> client" where
  "client_postW net path params c =
     (let c1 = c\<lparr>calls := calls c @ [PostW path params]\<rparr> in
      case net path params (cookies c) of
        Inl e \<Rightarrow> (Inl e, c1)
      | Inr (resp, jar) \<Rightarrow> (Inr resp, c1\<lparr>cookies := jar\<rparr>))"


text \<open>
  \<^verbatim>\<open>
  export async function logout() {
      const resp = await client.postW('/logout');
      if (resp.code === 200) {
          client.updateCookie();
      }
      return resp.code;
  }
  \<close>
\<close>

definition logout :: "exchange \<Rightarrow> client \<Rightarrow> (js_error + jsval) \<times> client" where
  "logout net c =
     (case client_postW net ''/logout'' JUndefined c of
        (Inl e, c1) \<Rightarrow> (Inl e, c1)
      | (Inr resp, c1) \<Rightarrow>
          (case get_prop resp ''code'' of
             Inl e \<Rightarrow> (Inl e, c1)
           | Inr code \<Rightarrow>
               (let c2 = (if code = JNum 200 then client_updateCookie None c1 else c1)
                in (Inr code, c2))))"

section \<open>Temporary music urls\<close>

datatype variant = WEB | ENCRYPTED | LINUX

text \<open>
  A call of \<open>client.postW\<close>, \<open>client.postE\<close> or \<open>client.postL\<close>: the request handed
  to the protocol client.
\<close>

record api_request =
  variant :: variant
  path :: string
  body :: jsval

text \<open>
  \<^verbatim>\<open>const QualityMap = { h: 320000, m: 192000, l: 128000 };\<close>: an object literal,
  given by its own properties; \<open>QualityMap[quality]\<close> is \<open>get_member QualityMap quality\<close>.
\<close>

definition QualityMap :: "(string \<times> jsval) list" where
  "QualityMap = [(''h'', JNum 320000), (''m'', JNum 192000), (''l'', JNum 128000)]"

definition quality_error :: "string \<Rightarrow> js_error" where
  "quality_error quality = Error (''Quality type '' @ [CHR 0x27] @ quality @ [CHR 0x27] @ '' is not in [h,m,l]'')"

text \<open>\<^verbatim>\<open>if (Array.isArray(idOrIds)) ids = idOrIds; else ids = [idOrIds];\<close>\<close>

fun ids_of :: "jsval \<Rightarrow> jsval" where
  "ids_of (JArr vs) = JArr vs"
| "ids_of v = JArr [v]"

text \<open>
  \<^verbatim>\<open>
  export function getMusicUrlW(idOrIds, quality) {
      if (!QualityMap[quality]) throw new Error(`Quality type '${quality}' is not in [h,m,l]`);
      let ids;
      if (Array.isArray(idOrIds)) ids = idOrIds;
      else ids = [idOrIds];
      return client.postW('/song/enhance/player/url', { ids, br: QualityMap[quality] });
  }
  \<close>
  \<open>Inl\<close> is the error thrown before any call of the client; \<open>Inr\<close> is the request
  the client is called with.
\<close>

definition getMusicUrlW :: "jsval \<Rightarrow> string \<Rightarrow> js_error + api_request" where
  "getMusicUrlW idOrIds quality =
     (if \<not> truthy (get_member QualityMap quality) then Inl (quality_error quality)
      else Inr \<lparr>variant = WEB, path = ''/song/enhance/player/url'',
                body = JObj [(''ids'', ids_of idOrIds), (''br'', get_member QualityMap quality)]\<rparr>)"

definition getMusicUrlL :: "jsval \<Rightarrow> string \<Rightarrow> js_error + api_request" where
  "getMusicUrlL idOrIds quality =
     (if \<not> truthy (get_member QualityMap quality) then Inl (quality_error quality)
      else Inr \<lparr>variant = LINUX, path = ''/api/song/enhance/player/url'',
                body = JObj [(''ids'', ids_of idOrIds), (''br'', get_member QualityMap quality)]\<rparr>)"

definition getMusicUrlE :: "jsval \<Rightarrow> string \<Rightarrow> js_error + api_request" where
  "getMusicUrlE idOrIds quality =
     (if \<not> truthy (get_member QualityMap quality) then Inl (quality_error quality)
      else Inr \<lparr>variant = ENCRYPTED, path = ''/song/enhance/player/url'',
                body = JObj [(''ids'', ids_of idOrIds), (''br'', get_member QualityMap quality)]\<rparr>)"

section \<open>The url of the local music server\<close>

subsection \<open>\<open>querystring.stringify\<close> and \<open>url.format\<close>\<close>

text \<open>
  The two functions of the platform's library that \<open>getMusicUrlLocal\<close> calls, on the
  fields it passes. Strings are sequences of UTF-8 bytes; \<open>querystring.escape\<close> keeps
  the letters, the digits and \<^verbatim>\<open>- _ . ! ~ * ' ( )\<close> and writes every other byte as
  \<open>%XX\<close>.
\<close>

definition qs_unreserved :: "char \<Rightarrow> bool" where
  "qs_unreserved c \<longleftrightarrow>
     c \<in> set ''ABCDEFGHIJKLMNOPQRSTUVWXYZabcdefghijklmnopqrstuvwxyz0123456789-_.!~*()''
     \<or> c = CHR 0x27"

definition hex_digit :: "nat \<Rightarrow> char" where
  "hex_digit d = ''0123456789ABCDEF'' ! d"

definition percent_encode :: "char \<Rightarrow> string" where
  "percent_encode c =
     [CHR ''%'', hex_digit ((of_char c :: nat) div 16), hex_digit ((of_char c :: nat) mod 16)]"

definition qs_escape :: "string \<Rightarrow> string" where
  "qs_escape s = concat (map (\<lambda>c. if qs_unreserved c then [c] else percent_encode c) s)"

text \<open>\<open>stringifyPrimitive\<close>: strings, finite numbers and booleans; anything else is empty.\<close>

fun stringifyPrimitive :: "jsval \<Rightarrow> string" where
  "stringifyPrimitive (JStr s) = s"
| "stringifyPrimitive (JNum n) = dec_int n"
| "stringifyPrimitive (JBool b) = (if b then ''true'' else ''false'')"
| "stringifyPrimitive v = []"

fun join_with :: "string \<Rightarrow> string list \<Rightarrow> string" where
  "join_with sep [] = []"
| "join_with sep [x] = x"
| "join_with sep (x # y # ys) = x @ sep @ join_with sep (y # ys)"

definition qs_field :: "string \<times> jsval \<Rightarrow> string list" where
  "qs_field kv =
     (let ks = qs_escape (fst kv) @ ''='' in
      case snd kv of
        JArr vs \<Rightarrow> map (\<lambda>v. ks @ qs_escape (stringifyPrimitive v)) vs
      | v \<Rightarrow> [ks @ qs_escape (stringifyPrimitive v)])"

definition querystring_stringify :: "(string \<times> jsval) list \<Rightarrow> string" where
  "querystring_stringify obj = join_with ''&'' (concat (map qs_field obj))"

record url_object =
  protocol :: string
  hostname :: string
  port :: nat
  pathname :: string
  query :: "(string \<times> jsval) list"

definition slashedProtocol :: "string set" where
  "slashedProtocol = {''http'', ''http:'', ''https'', ''https:'', ''ftp'', ''ftp:'',
     ''gopher'', ''gopher:'', ''file'', ''file:'', ''ws'', ''ws:'', ''wss'', ''wss:''}"

text \<open>\<open>s.replace(/#/g, '%23')\<close> and, for the pathname, \<open>?\<close> as \<open>%3F\<close> too.\<close>

definition escape_search :: "string \<Rightarrow> string" where
  "escape_search s = concat (map (\<lambda>c. if c = CHR ''#'' then ''%23'' else [c]) s)"

definition escape_pathname :: "string \<Rightarrow> string" where
  "escape_pathname s =
     concat (map (\<lambda>c. if c = CHR ''#'' then ''%23'' else if c = CHR ''?'' then ''%3F'' else [c]) s)"

text \<open>
  \<open>url.format(urlObject)\<close> for an object with \<open>protocol\<close>, \<open>hostname\<close>, \<open>port\<close>,
  \<open>pathname\<close> and \<open>query\<close> (no \<open>auth\<close>, \<open>host\<close>, \<open>search\<close>, \<open>hash\<close> or
  \<open>slashes\<close>). The port is appended only when it is truthy: \<open>if (this.port)\<close>.
\<close>

definition url_format :: "url_object \<Rightarrow> string" where
  "url_format u =
     (let proto = (if protocol u \<noteq> [] \<and> last (protocol u) \<noteq> CHR '':'' then protocol u @ '':''
                   else protocol u);
          host0 = (if hostname u = [] then []
                   else (if CHR '':'' \<in> set (hostname u) then ''['' @ hostname u @ '']''
                         else hostname u)
                        @ (if port u \<noteq> 0 then '':'' @ dec_nat (port u) else []));
          qstr = querystring_stringify (query u);
          search0 = (if qstr \<noteq> [] then ''?'' @ qstr else []);
          path0 = escape_pathname (pathname u);
          slashed = (proto \<in> slashedProtocol \<and> host0 \<noteq> []);
          path1 = (if slashed \<and> path0 \<noteq> [] \<and> hd path0 \<noteq> CHR ''/'' then ''/'' @ path0 else path0);
          host1 = (if slashed then ''//'' @ host0
                   else if proto \<in> slashedProtocol \<and> take 4 proto = ''file'' then ''//''
                   else host0);
          search1 = escape_search search0
      in proto @ host1 @ path1 @ search1)"

subsection \<open>\<open>getMusicUrlLocal\<close>\<close>

record music_url_local_res =
  url :: string

text \<open>
  \<^verbatim>\<open>
  let musicServerPort = 0;
  musicServer.listen().then(addr => musicServerPort = addr.port);

  export async function getMusicUrlLocal(id, quality, ignoreCache = false) {
      return {
          url: url.format({
              protocol: 'http:',
              hostname: 'localhost',
              port: musicServerPort,
              pathname: '/music',
              query: ignoreCache ? { id, quality, ignoreCache } : { id, quality }
          })
      };
  }
  \<close>
  The source's \<open>id\<close> is written \<open>id'\<close> throughout (\<open>id\<close> is the identity function
  of HOL). The first argument is the value of the module variable \<open>musicServerPort\<close> when the
  function runs: \<open>0\<close> until the server's \<open>listen\<close> has resolved, the port the system
  assigned from then on.
\<close>

definition getMusicUrlLocal :: "nat \<Rightarrow> int \<Rightarrow> string \<Rightarrow> bool \<Rightarrow> music_url_local_res" where
  "getMusicUrlLocal musicServerPort id' quality ignoreCache =
     \<lparr>url = url_format
        \<lparr>protocol = ''http:'',
         hostname = ''localhost'',
         port = musicServerPort,
         pathname = ''/music'',
         query = (if ignoreCache
                  then [(''id'', JNum id'), (''quality'', JStr quality), (''ignoreCache'', JBool ignoreCache)]
                  else [(''id'', JNum id'), (''quality'', JStr quality)])\<rparr>\<rparr>"



section \<open>Lyrics\<close>














subsection \<open>The lyric cache\<close>




section \<open>Disk usage and removal of the caches\<close>

datatype fs_error = ENOENT | EACCES | EPERM | ENOTDIR | EBUSY | EMFILE | EIO

text \<open>
  What \<open>lstat\<close>, \<open>readdir\<close> and \<open>unlink\<close> find at a path. A regular file and a
  symbolic link have the size \<open>lstat\<close> reports and the error their \<open>unlink\<close> rejects
  with, if it does; a directory lists its entries, or its \<open>readdir\<close> rejects;
  \<open>Special\<close> is what is neither (a socket, a pipe, a device); at \<open>NoStat\<close> the
  \<open>lstat\<close> itself rejects (nothing there, or no permission).
\<close>

datatype node =
    File nat "fs_error option"
  | Symlink nat "fs_error option"
  | Dir "(string \<times> node) list"
  | DirUnreadable fs_error
  | Special
  | NoStat fs_error

text \<open>
  A promise, by how it ends: resolved with a value, rejected with an error, or never
  settled (neither \<open>resolve\<close> nor \<open>reject\<close> is ever called).
\<close>

datatype 'a promise = Resolved 'a | Rejected fs_error | Pending

text \<open>
  \<open>Promise.all\<close>: rejected as soon as one of the promises is (with that one's error;
  of several, the model takes the first of the list), resolved with all the values when
  all are resolved, pending otherwise.
\<close>

fun promise_all :: "'a promise list \<Rightarrow> 'a list promise" where
  "promise_all [] = Resolved []"
| "promise_all (Rejected e # ps) = Rejected e"
| "promise_all (Pending # ps) =
     (case promise_all ps of Rejected e \<Rightarrow> Rejected e | _ \<Rightarrow> Pending)"
| "promise_all (Resolved v # ps) =
     (case promise_all ps of
        Resolved vs \<Rightarrow> Resolved (v # vs)
      | Rejected e \<Rightarrow> Rejected e
      | Pending \<Rightarrow> Pending)"

text \<open>
  \<^verbatim>\<open>
  export function getDiskUsage(pathname) {
      return new Promise((resolve, reject) => {
          fsPromises.lstat(pathname).then(stat => {
              if (stat.isSymbolicLink() || stat.isFile()) {
                  resolve(stat.size);
              } else if (stat.isDirectory()) {
                  fsPromises.readdir(pathname).then(files => {
                      const p = files.map(file => getDiskUsage(path.join(pathname, file)));
                      Promise.all(p).then(sizes => {
                          const tot = sizes.reduce((a, b) => a + b, 0);
                          resolve(tot);
                      }).catch(reject);
                  });
              }
          }).catch(reject);
      });
  }
  \<close>
  The promise of \<open>readdir(pathname).then(...)\<close> is neither returned nor given a
  \<open>catch\<close>: when \<open>readdir\<close> rejects, nothing calls \<open>resolve\<close> or \<open>reject\<close>. Nor
  does anything when the path is neither a file, a link nor a directory.
\<close>

fun getDiskUsage :: "node \<Rightarrow> nat promise" where
  "getDiskUsage (NoStat e) = Rejected e"
| "getDiskUsage (File sz u) = Resolved sz"
| "getDiskUsage (Symlink sz u) = Resolved sz"
| "getDiskUsage (Dir files) =
     (case promise_all (map (\<lambda>file. getDiskUsage (snd file)) files) of
        Resolved sizes \<Rightarrow> Resolved (foldl (\<lambda>a b. a + b) 0 sizes)
      | Rejected e \<Rightarrow> Rejected e
      | Pending \<Rightarrow> Pending)"
| "getDiskUsage (DirUnreadable e) = Pending"
| "getDiskUsage Special = Pending"

text \<open>
  \<^verbatim>\<open>
  export function removeRecursive(pathname) {
      return new Promise((resolve, reject) => {
          fsPromises.lstat(pathname).then(stat => {
              if (stat.isSymbolicLink() || stat.isFile()) {
                  fsPromises.unlink(pathname).then(resolve).catch(reject);
              } else if (stat.isDirectory()) {
                  fsPromises.readdir(pathname).then(files => {
                      const p = files.map(file => removeRecursive(path.join(pathname, file)));
                      Promise.all(p).then(resolve).catch(reject);
                  });
              }
          }).catch(reject);
      });
  }
  \<close>
  The result is how the promise ends and what is left at the path once every \<open>unlink\<close>
  that was started has finished (\<open>None\<close>: nothing). Directories are never removed.
\<close>

fun removeRecursive :: "node \<Rightarrow> unit promise \<times> node option" where
  "removeRecursive (NoStat e) = (Rejected e, Some (NoStat e))"
| "removeRecursive (File sz u) =
     (case u of None \<Rightarrow> (Resolved (), None) | Some e \<Rightarrow> (Rejected e, Some (File sz u)))"
| "removeRecursive (Symlink sz u) =
     (case u of None \<Rightarrow> (Resolved (), None) | Some e \<Rightarrow> (Rejected e, Some (Symlink sz u)))"
| "removeRecursive (Dir files) =
     (let rs = map (\<lambda>file. (fst file, removeRecursive (snd file))) files;
          left = concat (map (\<lambda>r. case snd (snd r) of None \<Rightarrow> [] | Some t \<Rightarrow> [(fst r, t)]) rs)
      in (case promise_all (map (\<lambda>r. fst (snd r)) rs) of
            Resolved us \<Rightarrow> Resolved ()
          | Rejected e \<Rightarrow> Rejected e
          | Pending \<Rightarrow> Pending,
          Some (Dir left)))"
| "removeRecursive (DirUnreadable e) = (Pending, Some (DirUnreadable e))"
| "removeRecursive Special = (Pending, Some Special)"

text \<open>
  \<^verbatim>\<open>const CachePath = { all: dataPath, music: ..., lyric: ... }\<close>; the type of the
  argument of \<open>getDataSize\<close> and \<open>clearCache\<close> is \<^verbatim>\<open>'all'|'music'|'lyric'\<close>. The file
  system is given by what is at each of the three paths.
\<close>

datatype cache_type = All_caches | Music_cache | Lyric_cache

record data_size_res =
  ok :: bool
  size_bytes :: nat
  msg :: "fs_error option"

record clear_cache_res =
  cleared_ok :: bool
  cleared_msg :: "fs_error option"

text \<open>
  \<^verbatim>\<open>
  export async function getDataSize(type) {
      const cachePath = CachePath[type];
      try {
          const size = await getDiskUsage(cachePath);
          return { ok: true, size };
      } catch (e) {
          console.error(e);
          return { ok: false, size: 0, msg: e.stack };
      }
  }
  \<close>
  \<open>msg\<close> holds the error whose stack the source reports.
\<close>

definition getDataSize :: "(cache_type \<Rightarrow> node) \<Rightarrow> cache_type \<Rightarrow> data_size_res promise" where
  "getDataSize CachePath type =
     (case getDiskUsage (CachePath type) of
        Resolved sz \<Rightarrow> Resolved \<lparr>ok = True, size_bytes = sz, msg = None\<rparr>
      | Rejected e \<Rightarrow> Resolved \<lparr>ok = False, size_bytes = 0, msg = Some e\<rparr>
      | Pending \<Rightarrow> Pending)"

text \<open>
  \<^verbatim>\<open>
  export async function clearCache(type) {
      try {
          await removeRecursive(CachePath[type]);
      } catch (e) {
          return { ok: false, msg: e.stack };
      }
      return { ok: true };
  }
  \<close>
\<close>

definition clearCache ::
  "(cache_type \<Rightarrow> node) \<Rightarrow> cache_type \<Rightarrow> clear_cache_res promise \<times> node option" where
  "clearCache CachePath type =
     (case removeRecursive (CachePath type) of
        (Resolved u, left) \<Rightarrow> (Resolved \<lparr>cleared_ok = True, cleared_msg = None\<rparr>, left)
      | (Rejected e, left) \<Rightarrow> (Resolved \<lparr>cleared_ok = False, cleared_msg = Some e\<rparr>, left)
      | (Pending, left) \<Rightarrow> (Pending, left))"




subsection \<open>What the removal leaves behind\<close>




section \<open>The streaming server's fetch coordination\<close>

text \<open>
  Modelled from the spec: the class \<open>MusicServer\<close> of \<^verbatim>\<open>./musicServer\<close>, which is not
  among the sources (\<^verbatim>\<open>index.js\<close> only constructs it and reads its port). The
  specification's algorithm for a media request, section 4.4:

  \<^enum> compute the cache key;
  \<^enum> "If \<open>ignoreCache\<close> is false and DiskCache reports the key COMPLETE, serve directly
    from the cached file";
  \<^enum> "Otherwise, consult a process-wide map from cache key to an in-flight fetch
    coordinator. If one exists, the current request attaches to it [...]. If none exists,
    this request becomes the coordinator: it asks [...] for the upstream URL, streams the
    upstream body to a staged cache file [...] and on completion marks the entry COMPLETE
    and releases all waiters (success or failure [...])".

  Section 5 makes the look-up and the insertion into the map one atomic step, so the
  server's history is a sequence of events: a request arriving, a fetch succeeding, a
  fetch failing.
\<close>

datatype served_from = From_cache | From_fetch | Fetch_error

record server =
  complete :: "string set"
  inflight :: "string \<rightharpoonup> nat list"
  upstream :: "string list"
  served :: "(nat \<times> served_from) list"

text \<open>
  \<open>complete\<close>: the keys DiskCache reports COMPLETE; \<open>inflight\<close>: the map from a cache key
  to its in-flight fetch, given by the requests that share it (the coordinator first);
  \<open>upstream\<close>: the upstream fetches started so far, by key; \<open>served\<close>: the requests
  answered so far. A request is named by a number.
\<close>

datatype event =
    Request nat string bool
  | Fetch_done string
  | Fetch_failed string





text \<open>
  Every request for \<open>k\<close> among the events passes step 2 of the algorithm: it asks to
  bypass the cache, or the key is not COMPLETE.
\<close>

fun all_miss :: "string \<Rightarrow> server \<Rightarrow> event list \<Rightarrow> bool" where
  "all_miss k s [] = True"
| "all_miss k s (Request r k' ic # es) =
     ((k' = k \<longrightarrow> ic \<or> k \<notin> complete s) \<and> all_miss k s es)"
| "all_miss k s (e # es) = all_miss k s es"


section \<open>Example inputs\<close>

text \<open>Concrete inputs on which the theorems below are instantiated.\<close>

definition jar0 :: "string \<rightharpoonup> string" where
  "jar0 = [''MUSIC_U'' \<mapsto> ''token'']"

definition client0 :: client where
  "client0 = \<lparr>cookies = jar0, calls = []\<rparr>"

text \<open>A network that answers every request with \<open>{ code: n }\<close> and sets no cookie.\<close>

definition answer :: "int \<Rightarrow> exchange" where
  "answer n = (\<lambda>path params jar. Inr (JObj [(''code'', JNum n)], jar))"



text \<open>A cache directory with a file, a subdirectory and an empty directory.\<close>

definition tree0 :: node where
  "tree0 = Dir [(''12345h'', File 100 None), (''sub'', Dir [(''a'', File 7 None), (''b'', Symlink 5 None)]),
                (''empty'', Dir [])]"







section \<open>Single flight of upstream fetches\<close>







lemma all_miss_Request: "all_miss k s (Request r k ic # es) \<Longrightarrow> ic \<or> k \<notin> complete s"
  by simp




section \<open>Logout and the cookie set\<close>

text \<open>
  Claim C3. When the exchange for \<open>/logout\<close> answers with a response \<open>resp\<close>, \<open>logout\<close>
  returns \<open>resp.code\<close>; it calls \<open>updateCookie\<close> with no argument, which empties the
  cookie set, exactly when \<open>resp.code === 200\<close>; for every other code it calls nothing
  and the cookie set stays as the exchange left it.
\<close>

theorem logout_clears_cookies_iff_code_200:
  assumes "net ''/logout'' JUndefined (cookies c) = Inr (resp, jar)"
      and "get_prop resp ''code'' = Inr code"
  shows "fst (logout net c) = Inr code
     \<and> (calls (snd (logout net c)) = calls c @ [PostW ''/logout'' JUndefined, UpdateCookie None])
         = (code = JNum 200)
     \<and> (code = JNum 200 \<longrightarrow> cookies (snd (logout net c)) = Map.empty)
     \<and> (code \<noteq> JNum 200 \<longrightarrow>
          cookies (snd (logout net c)) = jar
          \<and> calls (snd (logout net c)) = calls c @ [PostW ''/logout'' JUndefined])"
  using assms
  by (simp add: logout_def client_postW_def client_updateCookie_def Let_def)

theorem logout_clears_cookies_iff_code_200_witness:
  "fst (logout (answer 200) client0) = Inr (JNum 200)
   \<and> cookies (snd (logout (answer 200) client0)) = Map.empty
   \<and> calls (snd (logout (answer 200) client0)) = [PostW ''/logout'' JUndefined, UpdateCookie None]
   \<and> fst (logout (answer 301) client0) = Inr (JNum 301)
   \<and> cookies (snd (logout (answer 301) client0)) = jar0
   \<and> calls (snd (logout (answer 301) client0)) = [PostW ''/logout'' JUndefined]"
proof -
  have n200: "answer 200 ''/logout'' JUndefined (cookies client0) = Inr (JObj [(''code'', JNum 200)], jar0)"
    by (simp add: answer_def client0_def)
  have n301: "answer 301 ''/logout'' JUndefined (cookies client0) = Inr (JObj [(''code'', JNum 301)], jar0)"
    by (simp add: answer_def client0_def)
  have g200: "get_prop (JObj [(''code'', JNum 200)]) ''code'' = Inr (JNum 200)"
    by (simp add: get_member_def)
  have g301: "get_prop (JObj [(''code'', JNum 301)]) ''code'' = Inr (JNum 301)"
    by (simp add: get_member_def)
  show ?thesis
    using logout_clears_cookies_iff_code_200
            [of "answer 200" client0 "JObj [(''code'', JNum 200)]" jar0 "JNum 200", OF n200 g200]
          logout_clears_cookies_iff_code_200
            [of "answer 301" client0 "JObj [(''code'', JNum 301)]" jar0 "JNum 301", OF n301 g301]
    by (simp add: client0_def)
qed

lemma logout_rejected:
  "net ''/logout'' JUndefined (cookies c) = Inl e \<Longrightarrow>
     logout net c = (Inl e, c\<lparr>calls := calls c @ [PostW ''/logout'' JUndefined]\<rparr>)"
  by (simp add: logout_def client_postW_def Let_def)

section \<open>The quality check of the music url requests\<close>

lemma QualityMap_own:
  "get_member QualityMap ''h'' = JNum 320000"
  "get_member QualityMap ''m'' = JNum 192000"
  "get_member QualityMap ''l'' = JNum 128000"
  by (simp_all add: get_member_def QualityMap_def)

lemma getMusicUrl_known_quality:
  assumes "quality \<in> {''h'', ''m'', ''l''}"
  shows "\<exists>n. get_member QualityMap quality = JNum n
           \<and> n = (if quality = ''h'' then 320000 else if quality = ''m'' then 192000 else 128000)
           \<and> getMusicUrlW v quality = Inr \<lparr>variant = WEB, path = ''/song/enhance/player/url'',
                 body = JObj [(''ids'', ids_of v), (''br'', JNum n)]\<rparr>
           \<and> getMusicUrlE v quality = Inr \<lparr>variant = ENCRYPTED, path = ''/song/enhance/player/url'',
                 body = JObj [(''ids'', ids_of v), (''br'', JNum n)]\<rparr>
           \<and> getMusicUrlL v quality = Inr \<lparr>variant = LINUX, path = ''/api/song/enhance/player/url'',
                 body = JObj [(''ids'', ids_of v), (''br'', JNum n)]\<rparr>"
  using assms
  by (auto simp: getMusicUrlW_def getMusicUrlE_def getMusicUrlL_def QualityMap_own)

lemma getMusicUrl_unknown_member:
  assumes "quality \<notin> fst ` set QualityMap" and "quality \<notin> fst ` set object_prototype"
  shows "getMusicUrlW v quality = Inl (quality_error quality)"
    and "getMusicUrlE v quality = Inl (quality_error quality)"
    and "getMusicUrlL v quality = Inl (quality_error quality)"
proof -
  have "map_of QualityMap quality = None" using assms(1) by (simp add: map_of_eq_None_iff)
  moreover have "map_of object_prototype quality = None"
    using assms(2) by (simp add: map_of_eq_None_iff)
  ultimately have "get_member QualityMap quality = JUndefined" by (simp add: get_member_def)
  then show "getMusicUrlW v quality = Inl (quality_error quality)"
    and "getMusicUrlE v quality = Inl (quality_error quality)"
    and "getMusicUrlL v quality = Inl (quality_error quality)"
    by (simp_all add: getMusicUrlW_def getMusicUrlE_def getMusicUrlL_def)
qed

lemma ids_of_single: "ids_of (JNum n) = JArr [JNum n]"
  by simp


text \<open>
  Claim C5, failing input. The quality \<open>constructor\<close> is outside \<open>{h, m, l}\<close>, yet
  \<open>QualityMap[quality]\<close> finds the member every object inherits, which is truthy: none
  of the three functions throws, and each hands the client a request whose \<open>br\<close> is
  that built-in function.
\<close>

theorem getMusicUrl_accepts_inherited_member:
  "getMusicUrlW (JNum 12345) ''constructor''
     = Inr \<lparr>variant = WEB, path = ''/song/enhance/player/url'',
            body = JObj [(''ids'', JArr [JNum 12345]), (''br'', JBuiltin ''Object'')]\<rparr>
   \<and> getMusicUrlE (JNum 12345) ''constructor''
     = Inr \<lparr>variant = ENCRYPTED, path = ''/song/enhance/player/url'',
            body = JObj [(''ids'', JArr [JNum 12345]), (''br'', JBuiltin ''Object'')]\<rparr>
   \<and> getMusicUrlL (JNum 12345) ''constructor''
     = Inr \<lparr>variant = LINUX, path = ''/api/song/enhance/player/url'',
            body = JObj [(''ids'', JArr [JNum 12345]), (''br'', JBuiltin ''Object'')]\<rparr>"
  by (simp add: getMusicUrlW_def getMusicUrlE_def getMusicUrlL_def get_member_def QualityMap_def
      object_prototype_def)

section \<open>The local url\<close>

lemma qs_escape_append: "qs_escape (xs @ ys) = qs_escape xs @ qs_escape ys"
  by (simp add: qs_escape_def)

lemma qs_escape_Cons:
  "qs_escape (c # s) = (if qs_unreserved c then [c] else percent_encode c) @ qs_escape s"
  by (simp add: qs_escape_def)


lemma escape_search_Nil: "escape_search [] = []"
  by (simp add: escape_search_def)

lemma escape_search_Cons:
  "escape_search (c # s) = (if c = CHR ''#'' then ''%23'' else [c]) @ escape_search s"
  by (simp add: escape_search_def)


lemma digit_char_mem: "d < 10 \<Longrightarrow> digit_char d \<in> set ''0123456789''"
  unfolding digit_char_def by (rule nth_mem) simp


lemma qs_unreserved_digit: "d < 10 \<Longrightarrow> qs_unreserved (digit_char d)"
  using digit_char_mem [of d] by (auto simp: qs_unreserved_def)


text \<open>The decimal digits and the sign pass \<open>querystring.escape\<close> unchanged.\<close>

lemma qs_escape_dec_nat: "qs_escape (dec_nat n) = dec_nat n"
proof (induction n rule: dec_nat.induct)
  case (1 n)
  show ?case
  proof (cases "n < 10")
    case True
    then show ?thesis
      by (subst (1 2) dec_nat.simps) (simp add: qs_escape_def qs_unreserved_digit)
  next
    case False
    have d: "n mod 10 < 10" by simp
    from False 1 have ih: "qs_escape (dec_nat (n div 10)) = dec_nat (n div 10)" by simp
    have last: "qs_escape [digit_char (n mod 10)] = [digit_char (n mod 10)]"
      using qs_unreserved_digit [OF d] by (simp add: qs_escape_def)
    have "dec_nat n = dec_nat (n div 10) @ [digit_char (n mod 10)]"
      using False by (subst dec_nat.simps) simp
    then show ?thesis by (simp add: qs_escape_append ih last)
  qed
qed

lemma qs_escape_dec_int: "qs_escape (dec_int i) = dec_int i"
proof -
  have "qs_unreserved CHR ''-''" by (simp add: qs_unreserved_def)
  then show ?thesis by (simp add: dec_int_def qs_escape_Cons qs_escape_dec_nat)
qed





lemma qs_escape_literals:
  "qs_escape ''id'' = ''id''" "qs_escape ''quality'' = ''quality''"
  "qs_escape ''ignoreCache'' = ''ignoreCache''" "qs_escape ''true'' = ''true''"
  by (simp_all add: qs_escape_def qs_unreserved_def)

lemma querystring_two:
  "querystring_stringify [(''id'', JNum i), (''quality'', JStr q)] =
     ''id='' @ dec_int i @ ''&quality='' @ qs_escape q"
  by (simp add: querystring_stringify_def qs_field_def qs_escape_literals qs_escape_dec_int)




lemma dec_int_12345: "dec_int 12345 = ''12345''"
  by (simp add: dec_int_def dec_nat.simps digit_char_def)

lemma qs_escape_h: "qs_escape ''h'' = ''h''"
  by (simp add: qs_escape_def qs_unreserved_def)



text \<open>Before \<open>listen\<close> has resolved the port is \<open>0\<close> and the url names none.\<close>

lemma getMusicUrlLocal_before_listen:
  "url (getMusicUrlLocal 0 12345 ''h'' False) = ''http://localhost/music?id=12345&quality=h''"
  by (simp add: getMusicUrlLocal_def url_format_def Let_def slashedProtocol_def
      escape_pathname_def querystring_two dec_int_12345 qs_escape_h escape_search_Cons
      escape_search_Nil)


section \<open>Disk usage\<close>






lemma removeRecursive_tree0:
  "removeRecursive tree0 = (Resolved (), Some (Dir [(''sub'', Dir []), (''empty'', Dir [])]))"
  by (simp add: tree0_def)

section \<open>Removal and saves in flight\<close>




lemma clearCache_left: "snd (clearCache CachePath type) = snd (removeRecursive (CachePath type))"
  by (simp add: clearCache_def split: prod.splits promise.splits)




section \<open>Errors of the recursive walk\<close>

lemma getDataSize_never_rejects: "getDataSize CachePath type \<noteq> Rejected e"
  by (simp add: getDataSize_def split: promise.splits)

lemma clearCache_never_rejects: "fst (clearCache CachePath type) \<noteq> Rejected e"
  by (simp add: clearCache_def split: prod.splits promise.splits)

lemma getDataSize_lstat_error:
  "getDataSize (\<lambda>type. NoStat e) type = Resolved \<lparr>ok = False, size_bytes = 0, msg = Some e\<rparr>"
  by (simp add: getDataSize_def)


text \<open>
  Claim C10, failing input. The cache root is a directory (\<open>lstat\<close> succeeds) whose
  \<open>readdir\<close> rejects, here with \<open>EACCES\<close>; or it holds such a directory. The rejection
  reaches no handler: the promises of \<open>getDiskUsage\<close> and \<open>removeRecursive\<close> never
  settle, so \<open>getDataSize\<close> and \<open>clearCache\<close> never resolve, neither with \<open>ok: false\<close>
  nor otherwise.
\<close>

theorem getDataSize_unreadable_directory_never_settles:
  "getDataSize (\<lambda>type. DirUnreadable EACCES) Music_cache = Pending
   \<and> fst (clearCache (\<lambda>type. DirUnreadable EACCES) Music_cache) = Pending
   \<and> getDataSize (\<lambda>type. Dir [(''musicCache'', DirUnreadable EACCES), (''Cookies'', File 20 None)])
        All_caches = Pending
   \<and> fst (clearCache (\<lambda>type. Dir [(''musicCache'', DirUnreadable EACCES), (''Cookies'', File 20 None)])
        All_caches) = Pending"
  by (simp add: getDataSize_def clearCache_def)

section \<open>Lyrics with a translation\<close>










section \<open>The cached lyric\<close>






end
